theory Spec2Isabelle
  imports Complex_Main
begin

section \<open>The fuzzy paddle controller of Pong.py\<close>

text \<open>
  The development embeds the class \<^verbatim>\<open>FuzzyPlayer\<close> of \<^verbatim>\<open>src/Pong.py\<close>: its
  constructor, the membership look-ups, the edge shift, the Takagi-Sugeno inference and
  the entry point \<^verbatim>\<open>act\<close>, together with \<^verbatim>\<open>Racket.move\<close>, which consumes the
  move command.

  Python floats are read as exact real numbers: every arithmetic operation of the source
  is the corresponding operation on \<^typ>\<open>real\<close>, so rounding of IEEE doubles is outside
  the model. The board's width and height come from \<^verbatim>\<open>Surface.get_width()\<close> and
  \<^verbatim>\<open>Surface.get_height()\<close>, which return non-negative integers; they are natural
  numbers here. The racket's width and maximal speed pass through \<^verbatim>\<open>float(...)\<close> and
  are reals.
\<close>

subsection \<open>Library functions the controller calls\<close>

text \<open>
  \<^verbatim>\<open>numpy.linspace(start, stop, num)\<close>: \<open>num\<close> evenly spaced samples, the first at
  \<open>start\<close>, the step \<open>(stop - start) / (num - 1)\<close>.
\<close>

definition linspace :: "real \<Rightarrow> real \<Rightarrow> nat \<Rightarrow> real list" where
  "linspace start stop num =
     map (\<lambda>i. start + real i * ((stop - start) / real (num - 1))) [0..<num]"

text \<open>
  \<^verbatim>\<open>skfuzzy.trimf(x, [a, b, c])\<close> computes, for each sample of the array \<open>x\<close>: zero to
  begin with; \<open>(x - a) / (b - a)\<close> where \<open>a < x < b\<close> (only if \<open>a \<noteq> b\<close>);
  \<open>(c - x) / (c - b)\<close> where \<open>b < x < c\<close> (only if \<open>b \<noteq> c\<close>); and finally one where
  \<open>x = b\<close>. \<open>trimf_at\<close> is the value at one sample, \<open>trimf\<close> the array.
  The library asserts \<open>a \<le> b \<le> c\<close>; \<open>abc_ok\<close> is that assertion.
\<close>

definition abc_ok :: "real \<times> real \<times> real \<Rightarrow> bool" where
  "abc_ok abc = (case abc of (a, b, c) \<Rightarrow> a \<le> b \<and> b \<le> c)"

definition trimf_at :: "real \<Rightarrow> real \<times> real \<times> real \<Rightarrow> real" where
  "trimf_at x abc =
     (case abc of (a, b, c) \<Rightarrow>
        if x = b then 1
        else if b \<noteq> c \<and> b < x \<and> x < c then (c - x) / (c - b)
        else if a \<noteq> b \<and> a < x \<and> x < b then (x - a) / (b - a)
        else 0)"

definition trimf :: "real list \<Rightarrow> real \<times> real \<times> real \<Rightarrow> real list" where
  "trimf xs abc = map (\<lambda>x. trimf_at x abc) xs"

text \<open>
  \<^verbatim>\<open>skfuzzy.trapmf(x, [a, b, c, d])\<close> starts from an array of ones and overwrites it four
  times, in this order: samples with \<open>x \<le> b\<close> get \<open>trimf(x, [a, b, b])\<close>, samples with
  \<open>x \<ge> c\<close> get \<open>trimf(x, [c, c, d])\<close>, samples with \<open>x < a\<close> get zero, samples with
  \<open>x > d\<close> get zero. The last write wins, so the tests are read in the opposite order.
  The library asserts \<open>a \<le> b \<le> c \<le> d\<close>; \<open>abcd_ok\<close> is that assertion.
\<close>

definition abcd_ok :: "real \<times> real \<times> real \<times> real \<Rightarrow> bool" where
  "abcd_ok abcd = (case abcd of (a, b, c, d) \<Rightarrow> a \<le> b \<and> b \<le> c \<and> c \<le> d)"

definition trapmf_at :: "real \<Rightarrow> real \<times> real \<times> real \<times> real \<Rightarrow> real" where
  "trapmf_at x abcd =
     (case abcd of (a, b, c, d) \<Rightarrow>
        if x > d then 0
        else if x < a then 0
        else if x \<ge> c then trimf_at x (c, c, d)
        else if x \<le> b then trimf_at x (a, b, b)
        else 1)"

definition trapmf :: "real list \<Rightarrow> real \<times> real \<times> real \<times> real \<Rightarrow> real list" where
  "trapmf xs abcd = map (\<lambda>x. trapmf_at x abcd) xs"

text \<open>
  \<^verbatim>\<open>skfuzzy.interp_membership(x, xmf, xx)\<close> is \<^verbatim>\<open>numpy.interp(xx, x, xmf, left=0.0,
  right=0.0)\<close>: zero left of the first and right of the last sample point; otherwise, with
  \<open>x\<^sub>j \<le> xx < x\<^sub>j\<^sub>+\<^sub>1\<close>, the sample \<open>y\<^sub>j\<close> itself when \<open>xx = x\<^sub>j\<close> and
  \<open>(y\<^sub>j\<^sub>+\<^sub>1 - y\<^sub>j) / (x\<^sub>j\<^sub>+\<^sub>1 - x\<^sub>j) * (xx - x\<^sub>j) + y\<^sub>j\<close> else; at the last sample point its
  sample. \<open>interp_search\<close> walks the sample points from the left where numpy searches by
  bisection; on increasing sample points both find the same interval.
\<close>

fun interp_search :: "real \<Rightarrow> (real \<times> real) list \<Rightarrow> real" where
  "interp_search xx [] = 0"
| "interp_search xx [(x1, y1)] = y1"
| "interp_search xx ((x1, y1) # (x2, y2) # ps) =
     (if xx < x2
      then (if xx = x1 then y1 else (y2 - y1) / (x2 - x1) * (xx - x1) + y1)
      else interp_search xx ((x2, y2) # ps))"

definition interp_membership :: "real list \<Rightarrow> real list \<Rightarrow> real \<Rightarrow> real" where
  "interp_membership xs xmf xx =
     (if xs = [] then 0
      else if xx < hd xs then 0
      else if xx > last xs then 0
      else interp_search xx (zip xs xmf))"

text \<open>
  \<^verbatim>\<open>numpy.copysign(m, s)\<close>: the magnitude of \<open>m\<close> with the sign of \<open>s\<close>. A real zero
  stands for the float \<open>+0.0\<close>, whose sign is positive.
\<close>

definition copysign :: "real \<Rightarrow> real \<Rightarrow> real" where
  "copysign m s = (if s < 0 then - \<bar>m\<bar> else \<bar>m\<bar>)"

subsection \<open>The controller object\<close>

text \<open>The keys of the dictionaries \<^verbatim>\<open>x_mf\<close>, \<^verbatim>\<open>y_mf\<close> and \<^verbatim>\<open>velocity_fx\<close>.\<close>

datatype x_label = X_far_right | X_right | X_center | X_left | X_far_left

datatype y_label = Y_near | Y_mid | Y_far

datatype v_label =
  fast_left | mid_left | drift_left | stop | drift_right | mid_right | fast_right

text \<open>
  The attributes \<^verbatim>\<open>__init__\<close> sets. \<^verbatim>\<open>_prev_y_abs\<close> and \<^verbatim>\<open>_boost_gain\<close> lose their
  leading underscore; \<open>None\<close> is the unset previous reading.
\<close>

record FuzzyPlayer =
  W :: real
  H :: real
  VMAX :: real
  PW :: real
  x_universe :: "real list"
  y_universe :: "real list"
  x_mf :: "x_label \<Rightarrow> real list"
  y_mf :: "y_label \<Rightarrow> real list"
  velocity_fx :: "v_label \<Rightarrow> real \<Rightarrow> real \<Rightarrow> real"
  dead_x :: real
  cutoff_v :: real
  prev_y_abs :: "real option"
  boost_gain :: real

text \<open>The breakpoints of the five horizontal and the three vertical membership functions.\<close>

definition x_far_right_abcd :: "real \<Rightarrow> real \<times> real \<times> real \<times> real" where
  "x_far_right_abcd spn = (- spn, - spn, - 0.22 * spn, - 0.14 * spn)"

definition x_right_abc :: "real \<Rightarrow> real \<times> real \<times> real" where
  "x_right_abc spn = (- 0.18 * spn, - 0.09 * spn, - 0.035 * spn)"

definition x_center_abc :: "real \<Rightarrow> real \<times> real \<times> real" where
  "x_center_abc spn = (- 0.05 * spn, 0.0, 0.05 * spn)"

definition x_left_abc :: "real \<Rightarrow> real \<times> real \<times> real" where
  "x_left_abc spn = (0.035 * spn, 0.09 * spn, 0.18 * spn)"

definition x_far_left_abcd :: "real \<Rightarrow> real \<times> real \<times> real \<times> real" where
  "x_far_left_abcd spn = (0.14 * spn, 0.22 * spn, spn, spn)"

definition y_near_abcd :: "real \<Rightarrow> real \<times> real \<times> real \<times> real" where
  "y_near_abcd h = (0, 0, 0.30 * h, 0.55 * h)"

definition y_mid_abc :: "real \<Rightarrow> real \<times> real \<times> real" where
  "y_mid_abc h = (0.48 * h, 0.68 * h, 0.85 * h)"

definition y_far_abcd :: "real \<Rightarrow> real \<times> real \<times> real \<times> real" where
  "y_far_abcd h = (0.78 * h, 0.92 * h, h, h)"

text \<open>The membership function of each label at one point, before sampling.\<close>

fun x_shape :: "real \<Rightarrow> x_label \<Rightarrow> real \<Rightarrow> real" where
  "x_shape spn X_far_right t = trapmf_at t (x_far_right_abcd spn)"
| "x_shape spn X_right t = trimf_at t (x_right_abc spn)"
| "x_shape spn X_center t = trimf_at t (x_center_abc spn)"
| "x_shape spn X_left t = trimf_at t (x_left_abc spn)"
| "x_shape spn X_far_left t = trapmf_at t (x_far_left_abcd spn)"

fun y_shape :: "real \<Rightarrow> y_label \<Rightarrow> real \<Rightarrow> real" where
  "y_shape h Y_near t = trapmf_at t (y_near_abcd h)"
| "y_shape h Y_mid t = trimf_at t (y_mid_abc h)"
| "y_shape h Y_far t = trapmf_at t (y_far_abcd h)"

text \<open>
  \<^verbatim>\<open>FuzzyPlayer.__init__(racket, ball, board)\<close>, from what it reads of its arguments:
  the board's width and height, the racket's maximal speed and width.
\<close>

fun init_x_mf :: "real list \<Rightarrow> real \<Rightarrow> x_label \<Rightarrow> real list" where
  "init_x_mf xu spn X_far_right = trapmf xu (x_far_right_abcd spn)"
| "init_x_mf xu spn X_right = trimf xu (x_right_abc spn)"
| "init_x_mf xu spn X_center = trimf xu (x_center_abc spn)"
| "init_x_mf xu spn X_left = trimf xu (x_left_abc spn)"
| "init_x_mf xu spn X_far_left = trapmf xu (x_far_left_abcd spn)"

fun init_y_mf :: "real list \<Rightarrow> real \<Rightarrow> y_label \<Rightarrow> real list" where
  "init_y_mf yu h Y_near = trapmf yu (y_near_abcd h)"
| "init_y_mf yu h Y_mid = trimf yu (y_mid_abc h)"
| "init_y_mf yu h Y_far = trapmf yu (y_far_abcd h)"

fun init_velocity_fx :: "real \<Rightarrow> v_label \<Rightarrow> real \<Rightarrow> real \<Rightarrow> real" where
  "init_velocity_fx V fast_left xd yd = - 1.00 * V"
| "init_velocity_fx V mid_left xd yd = - 0.90 * V"
| "init_velocity_fx V drift_left xd yd = - 0.70 * V"
| "init_velocity_fx V stop xd yd = 0.0"
| "init_velocity_fx V drift_right xd yd = 0.70 * V"
| "init_velocity_fx V mid_right xd yd = 0.90 * V"
| "init_velocity_fx V fast_right xd yd = 1.00 * V"

definition init :: "nat \<Rightarrow> nat \<Rightarrow> real \<Rightarrow> real \<Rightarrow> FuzzyPlayer" where
  "init board_width board_height max_speed racket_width =
     (let w = real board_width;
          h = real board_height;
          xu = linspace (- w / 2) (w / 2) (board_width + 1);
          yu = linspace 0 h (board_height + 1);
          spn = w / 2.0
      in \<lparr> W = w, H = h, VMAX = max_speed, PW = racket_width,
           x_universe = xu, y_universe = yu,
           x_mf = init_x_mf xu spn, y_mf = init_y_mf yu h,
           velocity_fx = init_velocity_fx max_speed,
           dead_x = 1.2, cutoff_v = 0.10, prev_y_abs = None, boost_gain = 1.10 \<rparr>)"

subsection \<open>Membership look-up and edge shift\<close>

definition mf_x_map :: "FuzzyPlayer \<Rightarrow> real \<Rightarrow> x_label \<Rightarrow> real" where
  "mf_x_map self x_val = (\<lambda>n. interp_membership (x_universe self) (x_mf self n) x_val)"

definition mf_y_map :: "FuzzyPlayer \<Rightarrow> real \<Rightarrow> y_label \<Rightarrow> real" where
  "mf_y_map self y_abs = (\<lambda>n. interp_membership (y_universe self) (y_mf self n) y_abs)"

definition edge_weight :: "FuzzyPlayer \<Rightarrow> real \<Rightarrow> real" where
  "edge_weight self y_abs =
     (let y = mf_y_map self y_abs in 0.9 * y Y_near + 0.4 * y Y_mid + 0.05 * y Y_far)"

definition edge_shift :: "FuzzyPlayer \<Rightarrow> real \<Rightarrow> real \<Rightarrow> real" where
  "edge_shift self y_abs x_val =
     (let w = edge_weight self y_abs;
          base = 0.25 * PW self;
          shift = w * base
      in copysign shift x_val)"

subsection \<open>Inference\<close>

text \<open>
  \<^verbatim>\<open>_tsk_velocity\<close> in three parts: the corrected offset \<open>x_edge\<close> (its first line), the
  list \<open>rules\<close> it appends to, the loop over that list with the guarded division
  (\<open>tsk_aggregate\<close> is the value of \<open>v\<close> after it), and the cutoff applied to that value.
\<close>

definition x_edge :: "FuzzyPlayer \<Rightarrow> real \<Rightarrow> real \<Rightarrow> real" where
  "x_edge self x_val y_abs = x_val - edge_shift self y_abs x_val"

definition tsk_rules ::
  "FuzzyPlayer \<Rightarrow> real \<Rightarrow> real \<Rightarrow> (real \<times> (real \<Rightarrow> real \<Rightarrow> real)) list" where
  "tsk_rules self xe y_abs =
     (let x = mf_x_map self xe;
          y = mf_y_map self y_abs;
          f = velocity_fx self
      in [(x X_far_left, f fast_left),
          (x X_far_right, f fast_right),
          (min (x X_left) (y Y_near), f fast_left),
          (min (x X_right) (y Y_near), f fast_right),
          (min (x X_left) (y Y_mid), f mid_left),
          (min (x X_right) (y Y_mid), f mid_right),
          (min (x X_left) (y Y_far), f drift_left),
          (min (x X_right) (y Y_far), f drift_right),
          (x X_center, f stop)])"

fun tsk_loop ::
  "(real \<times> (real \<Rightarrow> real \<Rightarrow> real)) list \<Rightarrow> real \<Rightarrow> real \<Rightarrow> real \<times> real \<Rightarrow> real \<times> real" where
  "tsk_loop [] xe y_abs (num, den) = (num, den)"
| "tsk_loop ((w_act, fx) # rules) xe y_abs (num, den) =
     (if w_act \<le> 0.0 then tsk_loop rules xe y_abs (num, den)
      else tsk_loop rules xe y_abs (num + w_act * fx xe y_abs, den + w_act))"

definition tsk_aggregate :: "FuzzyPlayer \<Rightarrow> real \<Rightarrow> real \<Rightarrow> real" where
  "tsk_aggregate self x_val y_abs =
     (let xe = x_edge self x_val y_abs in
      case tsk_loop (tsk_rules self xe y_abs) xe y_abs (0.0, 0.0) of
        (num, den) \<Rightarrow> if den \<le> 1 / 10 ^ 9 then 0.0 else num / den)"

definition tsk_velocity :: "FuzzyPlayer \<Rightarrow> real \<Rightarrow> real \<Rightarrow> real" where
  "tsk_velocity self x_val y_abs =
     (let v = tsk_aggregate self x_val y_abs in
      if \<bar>v\<bar> < cutoff_v self then 0.0 else v)"

subsection \<open>The entry point and the racket\<close>

text \<open>
  \<^verbatim>\<open>act(x_diff, y_diff)\<close> reads the racket's \<^verbatim>\<open>rect.x\<close> (an integer, \<open>rect_x\<close>),
  updates \<^verbatim>\<open>_prev_y_abs\<close> and calls \<^verbatim>\<open>self.move(self.racket.rect.x + v)\<close>. The
  model returns the updated controller, the velocity \<open>v\<close> and the argument of that call.
  \<open>act_v0\<close> is \<open>v\<close> before the boost, \<open>act_boosts\<close> the condition of the boost.
\<close>

definition act_v0 :: "FuzzyPlayer \<Rightarrow> real \<Rightarrow> real \<Rightarrow> real" where
  "act_v0 self x_val y_abs =
     (if \<bar>x_val\<bar> < dead_x self then 0.0 else tsk_velocity self x_val y_abs)"

definition act_boosts :: "FuzzyPlayer \<Rightarrow> real \<Rightarrow> real \<Rightarrow> real \<Rightarrow> bool" where
  "act_boosts self v x_val y_abs =
     (case prev_y_abs self of
        None \<Rightarrow> False
      | Some p \<Rightarrow> v \<noteq> 0.0 \<and> \<bar>x_val\<bar> \<ge> dead_x self \<and> y_abs < p - 0.001)"

definition act :: "FuzzyPlayer \<Rightarrow> int \<Rightarrow> real \<Rightarrow> real \<Rightarrow> FuzzyPlayer \<times> real \<times> real" where
  "act self rect_x x_diff y_diff =
     (let x_val = x_diff;
          y_abs = \<bar>y_diff\<bar>;
          v0 = act_v0 self x_val y_abs;
          v = (if act_boosts self v0 x_val y_abs
               then max (- VMAX self) (min (VMAX self) (v0 * boost_gain self))
               else v0)
      in (self\<lparr>prev_y_abs := Some y_abs\<rparr>, v, real_of_int rect_x + v))"

text \<open>
  \<^verbatim>\<open>Racket.move(x, board)\<close>: the displacement \<open>delta\<close> it adds to \<^verbatim>\<open>rect.x\<close>, from
  the racket's maximal speed and width, the board's width, \<^verbatim>\<open>rect.x\<close> and the target.
\<close>

definition Racket_move :: "real \<Rightarrow> real \<Rightarrow> nat \<Rightarrow> int \<Rightarrow> real \<Rightarrow> real" where
  "Racket_move max_speed width board_width rect_x x =
     (let delta = x - real_of_int rect_x;
          delta = (if delta > max_speed then max_speed else delta);
          delta = (if delta < - max_speed then - max_speed else delta);
          delta = (if real_of_int rect_x + delta < 0 then 0 else delta);
          delta = (if real_of_int rect_x + width + delta > real board_width then 0 else delta)
      in delta)"


subsection \<open>The sampled membership functions in closed form\<close>

text \<open>
  On sample points \<open>x0, x0 + 1, \<dots>, x0 + n\<close> carrying the samples of a function \<open>f\<close>,
  interpolation at \<open>x\<close> reads the two samples around \<open>x\<close>.
\<close>

definition grid_interp :: "(real \<Rightarrow> real) \<Rightarrow> real \<Rightarrow> nat \<Rightarrow> real \<Rightarrow> real" where
  "grid_interp f x0 n x =
     (if x < x0 \<or> x > x0 + real n then 0
      else let j = \<lfloor>x - x0\<rfloor>; t = x - x0 - of_int j
           in f (x0 + of_int j) + (f (x0 + of_int j + 1) - f (x0 + of_int j)) * t)"

text \<open>The weight a rule contributes to the loop: rules with \<open>w_act \<le> 0\<close> are skipped.\<close>

definition fired :: "real \<Rightarrow> real" where
  "fired w_act = (if w_act \<le> 0 then 0 else w_act)"

text \<open>
  The rule base and its aggregation as the specification words them (section 4.3): nine
  pairs of an activation weight and a consequent value; the output is the sum of weight
  times consequent over the rules of positive weight, divided by the sum of those weights,
  and 0 when that sum is at most a small epsilon (\<open>10\<^sup>-\<^sup>9\<close>, the constant of the code).
\<close>

definition spec_rule_base :: "(x_label \<Rightarrow> real) \<Rightarrow> (y_label \<Rightarrow> real) \<Rightarrow> real \<Rightarrow> (real \<times> real) list" where
  "spec_rule_base x y vmax =
     [(x X_far_left, - 1.0 * vmax),
      (x X_far_right, 1.0 * vmax),
      (min (x X_left) (y Y_near), - 1.0 * vmax),
      (min (x X_right) (y Y_near), 1.0 * vmax),
      (min (x X_left) (y Y_mid), - 0.9 * vmax),
      (min (x X_right) (y Y_mid), 0.9 * vmax),
      (min (x X_left) (y Y_far), - 0.7 * vmax),
      (min (x X_right) (y Y_far), 0.7 * vmax),
      (x X_center, 0)]"

definition spec_weighted_average :: "(real \<times> real) list \<Rightarrow> real" where
  "spec_weighted_average rules =
     (let fired_rules = filter (\<lambda>(w, z). w > 0) rules;
          total = (\<Sum>(w, z)\<leftarrow>fired_rules. w)
      in if total \<le> 1 / 10 ^ 9 then 0 else (\<Sum>(w, z)\<leftarrow>fired_rules. w * z) / total)"

lemma linspace_unit_x:
  "linspace (- real n / 2) (real n / 2) (n + 1) = map (\<lambda>i. - real n / 2 + real i) [0..<Suc n]"
  by (cases "n = 0") (simp_all add: linspace_def)

lemma linspace_unit_y:
  "linspace 0 (real n) (n + 1) = map (\<lambda>i. 0 + real i) [0..<Suc n]"
  by (cases "n = 0") (simp_all add: linspace_def)

subsection \<open>Interpolation on a unit grid\<close>

lemma interp_search_grid:
  assumes "k \<le> n" "x0 + real k \<le> x" "x \<le> x0 + real n"
  shows "interp_search x (map (\<lambda>i. (x0 + real i, f (x0 + real i))) [k..<Suc n]) =
         f (x0 + of_int \<lfloor>x - x0\<rfloor>) +
         (f (x0 + of_int \<lfloor>x - x0\<rfloor> + 1) - f (x0 + of_int \<lfloor>x - x0\<rfloor>)) * (x - x0 - of_int \<lfloor>x - x0\<rfloor>)"
  using assms
proof (induction "n - k" arbitrary: k)
  case 0
  then have kn: "k = n" and xe: "x = x0 + real n" by auto
  have fl: "\<lfloor>x - x0\<rfloor> = int n" using xe by simp
  show ?case unfolding fl using kn xe by simp
next
  case (Suc d)
  then have lt: "k < n" by simp
  have upt: "[k..<Suc n] = k # Suc k # [Suc (Suc k)..<Suc n]"
    using lt by (simp add: upt_conv_Cons)
  show ?case
  proof (cases "x < x0 + real (Suc k)")
    case True
    have fl: "\<lfloor>x - x0\<rfloor> = int k"
      using True Suc.prems(2) by (intro floor_unique) auto
    show ?thesis unfolding fl upt using True by (simp add: algebra_simps)
  next
    case False
    have eq: "interp_search x (map (\<lambda>i. (x0 + real i, f (x0 + real i))) [k..<Suc n]) =
              interp_search x (map (\<lambda>i. (x0 + real i, f (x0 + real i))) [Suc k..<Suc n])"
    proof -
      have u2: "[Suc k..<Suc n] = Suc k # [Suc (Suc k)..<Suc n]"
        using lt by (simp add: upt_conv_Cons)
      show ?thesis unfolding upt u2 using False by simp
    qed
    have "d = n - Suc k" using Suc.hyps(2) by simp
    from Suc.hyps(1)[OF this] lt False Suc.prems(3)
    show ?thesis unfolding eq by simp
  qed
qed

lemma interp_membership_grid:
  "interp_membership (map (\<lambda>i. x0 + real i) [0..<Suc n])
      (map f (map (\<lambda>i. x0 + real i) [0..<Suc n])) x = grid_interp f x0 n x"
proof -
  have z: "zip (map (\<lambda>i. x0 + real i) [0..<Suc n]) (map f (map (\<lambda>i. x0 + real i) [0..<Suc n]))
         = map (\<lambda>i. (x0 + real i, f (x0 + real i))) [0..<Suc n]"
    by (simp add: zip_map_map zip_same_conv_map del: upt_Suc)
  have h: "hd (map (\<lambda>i. x0 + real i) [0..<Suc n]) = x0"
    by (simp add: upt_conv_Cons del: upt_Suc)
  have l: "last (map (\<lambda>i. x0 + real i) [0..<Suc n]) = x0 + real n"
    by simp
  show ?thesis
  proof (cases "x < x0 \<or> x > x0 + real n")
    case True
    then show ?thesis unfolding interp_membership_def grid_interp_def h l by auto
  next
    case False
    then have a: "x0 + real 0 \<le> x" "x \<le> x0 + real n" by auto
    have "interp_membership (map (\<lambda>i. x0 + real i) [0..<Suc n])
      (map f (map (\<lambda>i. x0 + real i) [0..<Suc n])) x =
      interp_search x (map (\<lambda>i. (x0 + real i, f (x0 + real i))) [0..<Suc n])"
      unfolding interp_membership_def h l z using False by simp
    also have "\<dots> = grid_interp f x0 n x"
      unfolding grid_interp_def using interp_search_grid[where k=0 and n=n and f=f and x=x and ?x0.0=x0] a False by (simp add: Let_def)
    finally show ?thesis .
  qed
qed

subsection \<open>The constructed controller\<close>

lemma init_fields:
  "VMAX (init bw bh ms rw) = ms" "PW (init bw bh ms rw) = rw"
  "dead_x (init bw bh ms rw) = 1.2" "cutoff_v (init bw bh ms rw) = 0.10"
  "boost_gain (init bw bh ms rw) = 1.10" "prev_y_abs (init bw bh ms rw) = None"
  "velocity_fx (init bw bh ms rw) = init_velocity_fx ms"
  by (simp_all add: init_def Let_def)

lemma init_x_mf_map: "init_x_mf xu s l = map (x_shape s l) xu"
  by (cases l) (simp_all add: trimf_def trapmf_def)

lemma init_y_mf_map: "init_y_mf yu h l = map (y_shape h l) yu"
  by (cases l) (simp_all add: trimf_def trapmf_def)

lemma x_universe_init:
  "x_universe (init bw bh ms rw\<lparr>prev_y_abs := s\<rparr>) = map (\<lambda>i. - real bw / 2 + real i) [0..<Suc bw]"
  using linspace_unit_x[of bw] by (simp add: init_def Let_def del: upt_Suc)

lemma y_universe_init:
  "y_universe (init bw bh ms rw\<lparr>prev_y_abs := s\<rparr>) = map (\<lambda>i. 0 + real i) [0..<Suc bh]"
  using linspace_unit_y[of bh] by (simp add: init_def Let_def del: upt_Suc)

lemma x_mf_init:
  "x_mf (init bw bh ms rw\<lparr>prev_y_abs := s\<rparr>) l =
     map (x_shape (real bw / 2) l) (x_universe (init bw bh ms rw\<lparr>prev_y_abs := s\<rparr>))"
  by (simp add: init_def Let_def init_x_mf_map)

lemma y_mf_init:
  "y_mf (init bw bh ms rw\<lparr>prev_y_abs := s\<rparr>) l =
     map (y_shape (real bh) l) (y_universe (init bw bh ms rw\<lparr>prev_y_abs := s\<rparr>))"
  by (simp add: init_def Let_def init_y_mf_map)

lemma mf_x_map_init:
  "mf_x_map (init bw bh ms rw\<lparr>prev_y_abs := s\<rparr>) x l =
     grid_interp (x_shape (real bw / 2) l) (- real bw / 2) bw x"
  unfolding mf_x_map_def x_mf_init unfolding x_universe_init by (rule interp_membership_grid)

lemma mf_y_map_init:
  "mf_y_map (init bw bh ms rw\<lparr>prev_y_abs := s\<rparr>) y l =
     grid_interp (y_shape (real bh) l) 0 bh y"
  unfolding mf_y_map_def y_mf_init unfolding y_universe_init by (rule interp_membership_grid)

lemma trimf_at_range: "abc_ok abc \<Longrightarrow> 0 \<le> trimf_at x abc \<and> trimf_at x abc \<le> 1"
  by (cases abc) (auto simp: trimf_at_def abc_ok_def divide_simps)

lemma trapmf_at_range: "abcd_ok abcd \<Longrightarrow> 0 \<le> trapmf_at x abcd \<and> trapmf_at x abcd \<le> 1"
  by (cases abcd) (auto simp: trapmf_at_def trimf_at_def abcd_ok_def divide_simps)

lemma x_params_ok:
  "0 \<le> s \<Longrightarrow> abcd_ok (x_far_right_abcd s)" "0 \<le> s \<Longrightarrow> abc_ok (x_right_abc s)"
  "0 \<le> s \<Longrightarrow> abc_ok (x_center_abc s)" "0 \<le> s \<Longrightarrow> abc_ok (x_left_abc s)"
  "0 \<le> s \<Longrightarrow> abcd_ok (x_far_left_abcd s)"
  by (simp_all add: abc_ok_def abcd_ok_def x_far_right_abcd_def x_right_abc_def x_center_abc_def
      x_left_abc_def x_far_left_abcd_def)

lemma y_params_ok:
  "0 \<le> h \<Longrightarrow> abcd_ok (y_near_abcd h)" "0 \<le> h \<Longrightarrow> abc_ok (y_mid_abc h)"
  "0 \<le> h \<Longrightarrow> abcd_ok (y_far_abcd h)"
  by (simp_all add: abc_ok_def abcd_ok_def y_near_abcd_def y_mid_abc_def y_far_abcd_def)

lemma x_shape_range: "0 \<le> s \<Longrightarrow> 0 \<le> x_shape s l t \<and> x_shape s l t \<le> 1"
  by (cases l) (simp_all add: trimf_at_range trapmf_at_range x_params_ok)

lemma y_shape_range: "0 \<le> h \<Longrightarrow> 0 \<le> y_shape h l t \<and> y_shape h l t \<le> 1"
  by (cases l) (simp_all add: trimf_at_range trapmf_at_range y_params_ok)

lemma grid_interp_convex:
  assumes "x0 \<le> x" "x \<le> x0 + real n"
  shows "\<exists>t p. 0 \<le> t \<and> t < 1 \<and> (\<forall>f. grid_interp f x0 n x = (1 - t) * f p + t * f (p + 1))"
proof -
  let ?j = "\<lfloor>x - x0\<rfloor>"
  let ?t = "x - x0 - of_int ?j"
  have "0 \<le> ?t" "?t < 1" by linarith+
  moreover have "\<forall>f. grid_interp f x0 n x = (1 - ?t) * f (x0 + of_int ?j) + ?t * f (x0 + of_int ?j + 1)"
    using assms by (simp add: grid_interp_def Let_def algebra_simps)
  ultimately show ?thesis by blast
qed

lemma grid_interp_range:
  assumes "\<And>t. lo \<le> f t \<and> f t \<le> hi" "lo \<le> 0" "0 \<le> hi"
  shows "lo \<le> grid_interp f x0 n x \<and> grid_interp f x0 n x \<le> hi"
proof (cases "x0 \<le> x \<and> x \<le> x0 + real n")
  case False
  then show ?thesis using assms(2,3) by (auto simp: grid_interp_def)
next
  case True
  then obtain t p where t: "0 \<le> t" "t < 1"
    and e: "grid_interp f x0 n x = (1 - t) * f p + t * f (p + 1)"
    using grid_interp_convex[of x0 x n] by blast
  have a: "lo \<le> f p" "f p \<le> hi" "lo \<le> f (p + 1)" "f (p + 1) \<le> hi" using assms(1) by auto
  have "(1 - t) * lo \<le> (1 - t) * f p" "t * lo \<le> t * f (p + 1)"
       "(1 - t) * f p \<le> (1 - t) * hi" "t * f (p + 1) \<le> t * hi"
    using t a by (auto intro: mult_left_mono)
  then show ?thesis unfolding e by (auto simp: algebra_simps)
qed

lemma tsk_loop_sums:
  "tsk_loop rules xe ya (num, den) =
     (num + (\<Sum>(w, fx)\<leftarrow>rules. fired w * fx xe ya), den + (\<Sum>(w, fx)\<leftarrow>rules. fired w))"
  by (induction rules arbitrary: num den) (auto simp: fired_def)

lemma fired_nonneg: "0 \<le> fired w"
  by (simp add: fired_def)


lemma fired_sum_nonneg: "0 \<le> (\<Sum>(w, fx)\<leftarrow>rules. fired w)"
  by (induction rules) (auto simp: fired_nonneg)



lemma tsk_aggregate_sums:
  "tsk_aggregate self x_val y_abs =
     (let xe = x_edge self x_val y_abs;
          num = (\<Sum>(w, fx)\<leftarrow>tsk_rules self xe y_abs. fired w * fx xe y_abs);
          den = (\<Sum>(w, fx)\<leftarrow>tsk_rules self xe y_abs. fired w)
      in if den \<le> 1 / 10 ^ 9 then 0 else num / den)"
  by (simp add: tsk_aggregate_def Let_def tsk_loop_sums)





lemma act_fields:
  "fst (snd (act self rect_x x_diff y_diff)) =
     (if act_boosts self (act_v0 self x_diff \<bar>y_diff\<bar>) x_diff \<bar>y_diff\<bar>
      then max (- VMAX self) (min (VMAX self) (act_v0 self x_diff \<bar>y_diff\<bar> * boost_gain self))
      else act_v0 self x_diff \<bar>y_diff\<bar>)"
  "snd (snd (act self rect_x x_diff y_diff)) =
     real_of_int rect_x + fst (snd (act self rect_x x_diff y_diff))"
  "fst (act self rect_x x_diff y_diff) = self\<lparr>prev_y_abs := Some \<bar>y_diff\<bar>\<rparr>"
  by (simp_all add: act_def Let_def)

lemma ctl_fields:
  "VMAX (init bw bh ms rw\<lparr>prev_y_abs := s\<rparr>) = ms"
  "PW (init bw bh ms rw\<lparr>prev_y_abs := s\<rparr>) = rw"
  "dead_x (init bw bh ms rw\<lparr>prev_y_abs := s\<rparr>) = 1.2"
  "cutoff_v (init bw bh ms rw\<lparr>prev_y_abs := s\<rparr>) = 0.10"
  "boost_gain (init bw bh ms rw\<lparr>prev_y_abs := s\<rparr>) = 1.10"
  "prev_y_abs (init bw bh ms rw\<lparr>prev_y_abs := s\<rparr>) = s"
  "velocity_fx (init bw bh ms rw\<lparr>prev_y_abs := s\<rparr>) = init_velocity_fx ms"
  by (simp_all add: init_def Let_def)

lemma init_as_ctl: "init bw bh ms rw = init bw bh ms rw\<lparr>prev_y_abs := None\<rparr>"
  by (simp add: init_def Let_def)

lemmas shape_defs =
  x_shape.simps y_shape.simps x_far_right_abcd_def x_right_abc_def x_center_abc_def
  x_left_abc_def x_far_left_abcd_def y_near_abcd_def y_mid_abc_def y_far_abcd_def
  trimf_at_def trapmf_at_def

lemma y150:
  "mf_y_map (init 800 400 ms 80\<lparr>prev_y_abs := s\<rparr>) 150 Y_near = 7 / 10"
  "mf_y_map (init 800 400 ms 80\<lparr>prev_y_abs := s\<rparr>) 150 Y_mid = 0"
  "mf_y_map (init 800 400 ms 80\<lparr>prev_y_abs := s\<rparr>) 150 Y_far = 0"
  by (simp_all add: mf_y_map_init grid_interp_def Let_def shape_defs)

lemma xe_27_150: "x_edge (init 800 400 ms 80\<lparr>prev_y_abs := s\<rparr>) 27 150 = 72 / 5"
  by (simp add: x_edge_def edge_shift_def edge_weight_def Let_def y150 ctl_fields copysign_def)

lemma x_72_5:
  "mf_x_map (init 800 400 ms 80\<lparr>prev_y_abs := s\<rparr>) (72 / 5) X_far_left = 0"
  "mf_x_map (init 800 400 ms 80\<lparr>prev_y_abs := s\<rparr>) (72 / 5) X_left = 1 / 55"
  "mf_x_map (init 800 400 ms 80\<lparr>prev_y_abs := s\<rparr>) (72 / 5) X_center = 7 / 25"
  "mf_x_map (init 800 400 ms 80\<lparr>prev_y_abs := s\<rparr>) (72 / 5) X_right = 0"
  "mf_x_map (init 800 400 ms 80\<lparr>prev_y_abs := s\<rparr>) (72 / 5) X_far_right = 0"
  by (simp_all add: mf_x_map_init grid_interp_def Let_def shape_defs)

lemma agg_27_150:
  "tsk_aggregate (init 800 400 ms 80\<lparr>prev_y_abs := s\<rparr>) 27 150 = - (5 / 82) * ms"
  by (simp add: tsk_aggregate_sums Let_def xe_27_150 tsk_rules_def x_72_5 y150 fired_def ctl_fields)

lemma fired_filter_num:
  "(\<Sum>(w, z)\<leftarrow>rs. fired w * z) = (\<Sum>(w, z)\<leftarrow>filter (\<lambda>(w, z). w > 0) rs. w * z)"
proof (induction rs)
  case Nil
  then show ?case by simp
next
  case (Cons r rs)
  obtain w z where r: "r = (w, z)" by (cases r)
  show ?case using Cons.IH by (simp add: r fired_def)
qed

lemma fired_filter_den:
  "(\<Sum>(w, z)\<leftarrow>rs. fired w) = (\<Sum>(w, z)\<leftarrow>filter (\<lambda>(w, z). w > 0) (rs :: (real \<times> real) list). w)"
proof (induction rs)
  case Nil
  then show ?case by simp
next
  case (Cons r rs)
  obtain w z where r: "r = (w, z)" by (cases r)
  show ?case using Cons.IH by (simp add: r fired_def)
qed

lemma spec_weighted_average_fired:
  "spec_weighted_average rs =
     (if (\<Sum>(w, z)\<leftarrow>rs. fired w) \<le> 1 / 10 ^ 9 then 0
      else (\<Sum>(w, z)\<leftarrow>rs. fired w * z) / (\<Sum>(w, z)\<leftarrow>rs. fired w))"
  unfolding spec_weighted_average_def Let_def fired_filter_num fired_filter_den ..

lemma tsk_rules_values:
  "map (\<lambda>(w, fx). (w, fx xe ya)) (tsk_rules (init bw bh ms rw\<lparr>prev_y_abs := s\<rparr>) xe ya) =
     spec_rule_base (mf_x_map (init bw bh ms rw\<lparr>prev_y_abs := s\<rparr>) xe)
       (mf_y_map (init bw bh ms rw\<lparr>prev_y_abs := s\<rparr>) ya) ms"
  by (simp add: tsk_rules_def spec_rule_base_def Let_def ctl_fields)

lemma sum_values_num:
  "(\<Sum>(w, fx)\<leftarrow>rs. fired w * fx xe ya) = (\<Sum>(w, z)\<leftarrow>map (\<lambda>(w, fx). (w, fx xe ya)) rs. fired w * z)"
  by (induction rs) (auto)

lemma sum_values_den:
  "(\<Sum>(w, fx)\<leftarrow>rs. fired w) = (\<Sum>(w, z)\<leftarrow>map (\<lambda>(w, fx). (w, fx xe ya)) rs. fired w)"
  by (induction rs) (auto)

lemma tsk_aggregate_spec:
  "tsk_aggregate (init bw bh ms rw\<lparr>prev_y_abs := s\<rparr>) x_val y_abs =
     spec_weighted_average
       (spec_rule_base
          (mf_x_map (init bw bh ms rw\<lparr>prev_y_abs := s\<rparr>)
             (x_edge (init bw bh ms rw\<lparr>prev_y_abs := s\<rparr>) x_val y_abs))
          (mf_y_map (init bw bh ms rw\<lparr>prev_y_abs := s\<rparr>) y_abs) ms)"
proof -
  let ?P = "init bw bh ms rw\<lparr>prev_y_abs := s\<rparr>"
  let ?xe = "x_edge ?P x_val y_abs"
  let ?rs = "tsk_rules ?P ?xe y_abs"
  have n: "(\<Sum>(w, fx)\<leftarrow>?rs. fired w * fx ?xe y_abs) =
           (\<Sum>(w, z)\<leftarrow>spec_rule_base (mf_x_map ?P ?xe) (mf_y_map ?P y_abs) ms. fired w * z)"
    using sum_values_num[where rs="?rs" and xe="?xe" and ya=y_abs] by (simp only: tsk_rules_values)
  have d: "(\<Sum>(w, fx)\<leftarrow>?rs. fired w) =
           (\<Sum>(w, z)\<leftarrow>spec_rule_base (mf_x_map ?P ?xe) (mf_y_map ?P y_abs) ms. fired w)"
    using sum_values_den[where rs="?rs" and xe="?xe" and ya=y_abs] by (simp only: tsk_rules_values)
  show ?thesis
    unfolding tsk_aggregate_sums Let_def n d spec_weighted_average_fired ..
qed






lemma mf_y_map_nonneg: "0 \<le> mf_y_map (init bw bh ms rw\<lparr>prev_y_abs := s\<rparr>) y l"
  unfolding mf_y_map_init
  using grid_interp_range[where lo=0 and hi=1 and f="y_shape (real bh) l" and ?x0.0=0 and n=bh and x=y] y_shape_range[where h="real bh" and l=l]
  by simp

lemma mf_x_map_range:
  "0 \<le> mf_x_map (init bw bh ms rw\<lparr>prev_y_abs := s\<rparr>) x l
   \<and> mf_x_map (init bw bh ms rw\<lparr>prev_y_abs := s\<rparr>) x l \<le> 1"
  unfolding mf_x_map_init
  using grid_interp_range[where lo=0 and hi=1 and f="x_shape (real bw / 2) l" and ?x0.0="- real bw / 2" and n=bw and x=x]
    x_shape_range[where s="real bw / 2" and l=l]
  by simp

lemma edge_weight_nonneg: "0 \<le> edge_weight (init bw bh ms rw\<lparr>prev_y_abs := s\<rparr>) y"
  using mf_y_map_nonneg[where bw=bw and bh=bh and ms=ms and rw=rw and s=s and y=y]
  by (simp add: edge_weight_def Let_def)



lemma y10:
  "mf_y_map (init 800 400 ms 80\<lparr>prev_y_abs := s\<rparr>) 10 Y_near = 1"
  "mf_y_map (init 800 400 ms 80\<lparr>prev_y_abs := s\<rparr>) 10 Y_mid = 0"
  "mf_y_map (init 800 400 ms 80\<lparr>prev_y_abs := s\<rparr>) 10 Y_far = 0"
  by (simp_all add: mf_y_map_init grid_interp_def Let_def shape_defs)

lemma xe_50_10: "x_edge (init 800 400 ms 80\<lparr>prev_y_abs := s\<rparr>) 50 10 = 32"
  by (simp add: x_edge_def edge_shift_def edge_weight_def Let_def y10 ctl_fields copysign_def)

lemma x_32:
  "mf_x_map (init 800 400 ms 80\<lparr>prev_y_abs := s\<rparr>) 32 X_far_left = 0"
  "mf_x_map (init 800 400 ms 80\<lparr>prev_y_abs := s\<rparr>) 32 X_left = 9 / 11"
  "mf_x_map (init 800 400 ms 80\<lparr>prev_y_abs := s\<rparr>) 32 X_center = 0"
  "mf_x_map (init 800 400 ms 80\<lparr>prev_y_abs := s\<rparr>) 32 X_right = 0"
  "mf_x_map (init 800 400 ms 80\<lparr>prev_y_abs := s\<rparr>) 32 X_far_right = 0"
  by (simp_all add: mf_x_map_init grid_interp_def Let_def shape_defs)

lemma agg_50_10:
  "tsk_aggregate (init 800 400 ms 80\<lparr>prev_y_abs := s\<rparr>) 50 10 = - ms"
  by (simp add: tsk_aggregate_sums Let_def xe_50_10 tsk_rules_def x_32 y10 fired_def ctl_fields)

lemma y300:
  "mf_y_map (init 800 400 ms 80\<lparr>prev_y_abs := s\<rparr>) 300 Y_near = 0"
  "mf_y_map (init 800 400 ms 80\<lparr>prev_y_abs := s\<rparr>) 300 Y_mid = 10 / 17"
  "mf_y_map (init 800 400 ms 80\<lparr>prev_y_abs := s\<rparr>) 300 Y_far = 0"
  by (simp_all add: mf_y_map_init grid_interp_def Let_def shape_defs)

lemma xe_5_300: "x_edge (init 800 400 ms 80\<lparr>prev_y_abs := s\<rparr>) 5 300 = 5 / 17"
  by (simp add: x_edge_def edge_shift_def edge_weight_def Let_def y300 ctl_fields copysign_def)

lemma x_5_17:
  "mf_x_map (init 800 400 ms 80\<lparr>prev_y_abs := s\<rparr>) (5 / 17) X_far_left = 0"
  "mf_x_map (init 800 400 ms 80\<lparr>prev_y_abs := s\<rparr>) (5 / 17) X_left = 0"
  "mf_x_map (init 800 400 ms 80\<lparr>prev_y_abs := s\<rparr>) (5 / 17) X_center = 67 / 68"
  "mf_x_map (init 800 400 ms 80\<lparr>prev_y_abs := s\<rparr>) (5 / 17) X_right = 0"
  "mf_x_map (init 800 400 ms 80\<lparr>prev_y_abs := s\<rparr>) (5 / 17) X_far_right = 0"
  by (simp_all add: mf_x_map_init grid_interp_def Let_def shape_defs)

lemma agg_5_300:
  "tsk_aggregate (init 800 400 ms 80\<lparr>prev_y_abs := s\<rparr>) 5 300 = 0"
  by (simp add: tsk_aggregate_sums Let_def xe_5_300 tsk_rules_def x_5_17 y300 fired_def ctl_fields)






section \<open>The claims\<close>

text \<open>
  C5. Whatever \<open>dy\<close> is, when \<open>|dx|\<close> is below the dead-zone threshold \<^verbatim>\<open>act\<close>
  yields the velocity 0 and the move command names the racket's current x-position. The
  controller is arbitrary here, so the result owes nothing to the membership tables:
  inference is not consulted. \<^verbatim>\<open>Racket.move\<close>, given that target, displaces the racket by
  0 whenever its maximal speed is not negative.
\<close>

theorem dead_zone_no_move:
  assumes "\<bar>x_diff\<bar> < dead_x self"
  shows "snd (act self rect_x x_diff y_diff) = (0, real_of_int rect_x)
       \<and> (0 \<le> max_speed \<longrightarrow>
            Racket_move max_speed width board_width rect_x
              (snd (snd (act self rect_x x_diff y_diff))) = 0)"
proof -
  have v0: "act_v0 self x_diff \<bar>y_diff\<bar> = 0" using assms by (simp add: act_v0_def)
  have nb: "\<not> act_boosts self 0 x_diff \<bar>y_diff\<bar>"
    by (simp add: act_boosts_def split: option.split)
  have a: "snd (act self rect_x x_diff y_diff) = (0, real_of_int rect_x)"
    unfolding act_def Let_def v0 using nb by simp
  have r: "0 \<le> max_speed \<Longrightarrow>
      Racket_move max_speed width board_width rect_x (real_of_int rect_x) = 0"
    by (simp add: Racket_move_def Let_def)
  show ?thesis using a r by simp
qed

theorem dead_zone_no_move_witness:
  "\<bar>1 / 2\<bar> < dead_x (init 800 400 10 80)
   \<and> snd (act (init 800 400 10 80) 400 (1 / 2) 50) = (0, 400)
   \<and> Racket_move 10 80 800 400 (snd (snd (act (init 800 400 10 80) 400 (1 / 2) 50))) = 0"
proof -
  have h: "\<bar>1 / 2\<bar> < dead_x (init 800 400 10 80)" by (simp add: init_fields)
  show ?thesis
    using h dead_zone_no_move[OF h, of 400 50 10 80 800] by (simp add: Racket_move_def Let_def)
qed



text \<open>
  C1. What the code does after rule aggregation: the value is replaced by 0 when its
  magnitude is below 0.10, and kept otherwise, for every input and every maximal speed.
  The threshold is the constant \<^verbatim>\<open>cutoff_v = 0.10\<close>; the maximal speed does not enter it.
\<close>

theorem cutoff_is_absolute:
  "tsk_velocity (init bw bh ms rw\<lparr>prev_y_abs := s\<rparr>) x_val y_abs =
     (if \<bar>tsk_aggregate (init bw bh ms rw\<lparr>prev_y_abs := s\<rparr>) x_val y_abs\<bar> < 0.10 then 0
      else tsk_aggregate (init bw bh ms rw\<lparr>prev_y_abs := s\<rparr>) x_val y_abs)"
  by (simp add: tsk_velocity_def Let_def ctl_fields)

text \<open>
  No fraction \<open>c\<close> of the maximal speed is the threshold. On the 800 by 400 board with an
  80 wide racket, at \<open>dx = 27\<close>, \<open>dy = 150\<close> the aggregated value is \<open>- 5/82\<close> of the
  maximal speed. With maximal speed 10 it is about \<open>- 0.61\<close> and is kept, so \<open>c\<close> would be
  at most \<open>5/82\<close>; with maximal speed 1 it is about \<open>- 0.061\<close> and is replaced by 0, so
  \<open>c\<close> would exceed \<open>5/82\<close>.
\<close>

theorem cutoff_fraction_counterexample:
  "\<not> (\<exists>c.
        tsk_velocity (init 800 400 10 80) 27 150 =
          (if \<bar>tsk_aggregate (init 800 400 10 80) 27 150\<bar> < c * 10 then 0
           else tsk_aggregate (init 800 400 10 80) 27 150)
      \<and> tsk_velocity (init 800 400 1 80) 27 150 =
          (if \<bar>tsk_aggregate (init 800 400 1 80) 27 150\<bar> < c * 1 then 0
           else tsk_aggregate (init 800 400 1 80) 27 150))"
proof -
  have a10: "tsk_aggregate (init 800 400 10 80) 27 150 = - (25 / 41)"
    using agg_27_150[where ms=10 and s=None] by (simp add: init_as_ctl[symmetric])
  have a1: "tsk_aggregate (init 800 400 1 80) 27 150 = - (5 / 82)"
    using agg_27_150[where ms=1 and s=None] by (simp add: init_as_ctl[symmetric])
  have v10: "tsk_velocity (init 800 400 10 80) 27 150 = - (25 / 41)"
    by (simp add: tsk_velocity_def Let_def a10 init_fields)
  have v1: "tsk_velocity (init 800 400 1 80) 27 150 = 0"
    by (simp add: tsk_velocity_def Let_def a1 init_fields)
  show ?thesis unfolding a10 a1 v10 v1 by (auto split: if_splits)
qed

text \<open>
  C3. The value \<^verbatim>\<open>_tsk_velocity\<close> aggregates is the weighted average of the
  specification over its nine rules: the sum of weight times consequent over the rules of
  positive weight, divided by the sum of those weights, and 0 (no division) when that sum
  is at most \<open>10\<^sup>-\<^sup>9\<close>. The consequents are \<open>\<plusminus>1.0\<close>, \<open>\<plusminus>0.9\<close>, \<open>\<plusminus>0.7\<close> times the maximal
  speed and 0. The memberships are read at the corrected offset \<open>x_edge\<close> and at \<open>|dy|\<close>.
  What \<^verbatim>\<open>_tsk_velocity\<close> returns is that average, passed through the cutoff of C1.
\<close>

theorem aggregate_is_weighted_average:
  "tsk_aggregate (init bw bh ms rw\<lparr>prev_y_abs := s\<rparr>) x_val y_abs =
     spec_weighted_average
       (spec_rule_base
          (mf_x_map (init bw bh ms rw\<lparr>prev_y_abs := s\<rparr>)
             (x_edge (init bw bh ms rw\<lparr>prev_y_abs := s\<rparr>) x_val y_abs))
          (mf_y_map (init bw bh ms rw\<lparr>prev_y_abs := s\<rparr>) y_abs) ms)
   \<and> tsk_velocity (init bw bh ms rw\<lparr>prev_y_abs := s\<rparr>) x_val y_abs =
       (if \<bar>tsk_aggregate (init bw bh ms rw\<lparr>prev_y_abs := s\<rparr>) x_val y_abs\<bar> < 0.10 then 0
        else tsk_aggregate (init bw bh ms rw\<lparr>prev_y_abs := s\<rparr>) x_val y_abs)"
  using tsk_aggregate_spec[where bw=bw and bh=bh and ms=ms and rw=rw and s=s and x_val=x_val and y_abs=y_abs]
  by (simp add: tsk_velocity_def Let_def ctl_fields)

text \<open>
  C4. With \<open>w = 0.9 near + 0.4 mid + 0.05 far\<close> over the vertical membership degrees at
  \<open>|dy|\<close>, and a racket width that is not negative, the correction \<open>w * 0.25 * width\<close> is
  not negative, and the offset used for inference is the raw offset minus that correction
  when the raw offset is positive, and plus it when the raw offset is negative: the
  correction carries the sign of the raw offset.
\<close>

theorem edge_correction:
  assumes "0 \<le> rw"
  shows "(let P = init bw bh ms rw\<lparr>prev_y_abs := s\<rparr>;
              w = 0.9 * mf_y_map P y_abs Y_near + 0.4 * mf_y_map P y_abs Y_mid
                  + 0.05 * mf_y_map P y_abs Y_far
          in 0 \<le> w * 0.25 * rw
           \<and> \<bar>edge_shift P y_abs x_val\<bar> = w * 0.25 * rw
           \<and> x_edge P x_val y_abs = x_val - edge_shift P y_abs x_val
           \<and> (0 < x_val \<longrightarrow> x_edge P x_val y_abs = x_val - w * 0.25 * rw)
           \<and> (x_val < 0 \<longrightarrow> x_edge P x_val y_abs = x_val + w * 0.25 * rw))"
proof -
  let ?P = "init bw bh ms rw\<lparr>prev_y_abs := s\<rparr>"
  have w: "0 \<le> edge_weight ?P y_abs" by (rule edge_weight_nonneg)
  then have m: "0 \<le> edge_weight ?P y_abs * (0.25 * rw)" using assms by simp
  show ?thesis
    using m unfolding Let_def x_edge_def edge_shift_def copysign_def
    by (simp add: edge_weight_def Let_def ctl_fields)
qed

theorem edge_correction_witness:
  "(0::real) \<le> 80 \<and> (0::real) < 27
   \<and> x_edge (init 800 400 10 80\<lparr>prev_y_abs := None\<rparr>) 27 150 = 72 / 5"
proof -
  have h: "(0::real) \<le> 80" by simp
  show ?thesis
    using edge_correction[OF h, where bw=800 and bh=400 and ms=10 and s=None
        and x_val=27 and y_abs=150]
    by (simp add: Let_def y150)
qed



text \<open>
  C8. On the board of the program's main (800 by 400), with racket width 80 and maximal
  speed 10, in every state of the controller and at every racket position:
  \<^verbatim>\<open>act(0.5, 50)\<close> yields the velocity 0 (dead zone); \<^verbatim>\<open>act(50, 10)\<close> yields \<open>-10\<close>, the full
  speed to the left; \<^verbatim>\<open>act(5, 300)\<close> yields a velocity of magnitude below 8 (it is 0: at
  the corrected offset \<open>5/17\<close> only the rule \<open>center \<rightarrow> stop\<close> fires).
\<close>

theorem concrete_scenario:
  "fst (snd (act (init 800 400 10 80\<lparr>prev_y_abs := s\<rparr>) rect_x 0.5 50)) = 0
   \<and> fst (snd (act (init 800 400 10 80\<lparr>prev_y_abs := s\<rparr>) rect_x 50 10)) = - 10
   \<and> \<bar>fst (snd (act (init 800 400 10 80\<lparr>prev_y_abs := s\<rparr>) rect_x 5 300))\<bar> < 10 * 0.8
   \<and> fst (snd (act (init 800 400 10 80\<lparr>prev_y_abs := s\<rparr>) rect_x 5 300)) = 0"
proof -
  let ?P = "init 800 400 10 80\<lparr>prev_y_abs := s\<rparr>"
  have a: "act_v0 ?P 0.5 \<bar>50\<bar> = 0" by (simp add: act_v0_def ctl_fields)
  have b: "act_v0 ?P 50 \<bar>10\<bar> = - 10"
    by (simp add: act_v0_def tsk_velocity_def Let_def agg_50_10 ctl_fields)
  have c: "act_v0 ?P 5 \<bar>300\<bar> = 0"
    by (simp add: act_v0_def tsk_velocity_def Let_def agg_5_300 ctl_fields)
  have nb: "\<not> act_boosts ?P 0 x y" for x y
    by (simp add: act_boosts_def split: option.split)
  have one: "fst (snd (act ?P rect_x 0.5 50)) = 0"
    unfolding act_fields(1) a using nb by simp
  have two: "fst (snd (act ?P rect_x 50 10)) = - 10"
    unfolding act_fields(1) b by (simp add: ctl_fields)
  have three: "fst (snd (act ?P rect_x 5 300)) = 0"
    unfolding act_fields(1) c using nb by simp
  show ?thesis using one two three by simp
qed



end
